theory Spec2Isabelle
  imports Main "HOL-Library.Multiset"
begin

section \<open>Strings and characters\<close>

text \<open>
  The program is Python 3: a \<open>str\<close> is a sequence of Unicode code points. The model reads
  an Isabelle \<open>char\<close> as one code point below U+0100 (Latin-1), so a \<open>string\<close> is a
  Python \<open>str\<close> all of whose characters are below U+0100. The character classes below are
  the ones Python uses on that range: \<open>\d\<close> of module \<open>re\<close> is the decimal digits only,
  while \<open>str.isdigit\<close> also accepts the superscripts U+00B2, U+00B3 and U+00B9.
\<close>

definition cp :: "char \<Rightarrow> nat" where
  "cp c = of_char c"

definition re_digit :: "char \<Rightarrow> bool" where
  "re_digit c = (48 \<le> cp c \<and> cp c \<le> 57)"

definition chr_isdigit :: "char \<Rightarrow> bool" where
  "chr_isdigit c = (re_digit c \<or> cp c = 0xB2 \<or> cp c = 0xB3 \<or> cp c = 0xB9)"

definition re_space :: "char \<Rightarrow> bool" where
  "re_space c = ((9 \<le> cp c \<and> cp c \<le> 13) \<or> (28 \<le> cp c \<and> cp c \<le> 32)
                 \<or> cp c = 0x85 \<or> cp c = 0xA0)"

definition re_word :: "char \<Rightarrow> bool" where
  "re_word c = ((48 \<le> cp c \<and> cp c \<le> 57) \<or> (65 \<le> cp c \<and> cp c \<le> 90) \<or> cp c = 95
                \<or> (97 \<le> cp c \<and> cp c \<le> 122) \<or> cp c = 0xAA \<or> cp c = 0xB2 \<or> cp c = 0xB3
                \<or> cp c = 0xB5 \<or> cp c = 0xB9 \<or> cp c = 0xBA
                \<or> (0xBC \<le> cp c \<and> cp c \<le> 0xBE) \<or> (0xC0 \<le> cp c \<and> cp c \<le> 0xD6)
                \<or> (0xD8 \<le> cp c \<and> cp c \<le> 0xF6) \<or> 0xF8 \<le> cp c)"

definition chr_lower :: "char \<Rightarrow> char" where
  "chr_lower c = (if (65 \<le> cp c \<and> cp c \<le> 90) \<or> (0xC0 \<le> cp c \<and> cp c \<le> 0xD6)
                      \<or> (0xD8 \<le> cp c \<and> cp c \<le> 0xDE)
                   then char_of (cp c + 32) else c)"

definition lower :: "string \<Rightarrow> string" where
  "lower s = map chr_lower s"

text \<open>\<open>str.isdigit\<close>: every character is a digit and there is at least one.\<close>

definition isdigit :: "string \<Rightarrow> bool" where
  "isdigit s = (s \<noteq> [] \<and> list_all chr_isdigit s)"

datatype py_error = ValueError | TypeError | KeyError | IndexError | OSError | TclError

text \<open>
  \<open>int(p)\<close> on a string that passed \<open>isdigit\<close> or was matched by \<open>\d+\<close>: the value of
  the decimal digits, and \<open>ValueError\<close> when a character is not a decimal digit (Python's
  \<open>int\<close> refuses the superscript digits). Signs, blanks and underscores, which \<open>int\<close> also
  reads, never reach it in this program.
\<close>

definition digits_value :: "string \<Rightarrow> int" where
  "digits_value s = foldl (\<lambda>acc c. 10 * acc + (int (cp c) - 48)) 0 s"

definition py_int :: "string \<Rightarrow> py_error + int" where
  "py_int s = (if s \<noteq> [] \<and> list_all re_digit s then Inr (digits_value s) else Inl ValueError)"

section \<open>natural_key\<close>

text \<open>
  \<open>re.split(r'(\d+)', s)\<close>: the text before the first digit run, then alternately a digit
  run and the text after it. The first and the last piece may be empty.
\<close>

function split_digits :: "string \<Rightarrow> string list" where
  "split_digits s =
     (let pre = takeWhile (\<lambda>c. \<not> re_digit c) s;
          rest = dropWhile (\<lambda>c. \<not> re_digit c) s
      in if rest = [] then [pre]
         else pre # takeWhile re_digit rest # split_digits (dropWhile re_digit rest))"
  by pat_completeness auto
termination
proof (relation "measure length")
  show "wf (measure length)" by simp
next
  fix s :: string and pre rest
  assume r: "rest = dropWhile (\<lambda>c. \<not> re_digit c) s" and ne: "rest \<noteq> []"
  from ne obtain c cs where rc: "rest = c # cs" by (cases rest) auto
  from r ne have "dropWhile (\<lambda>c. \<not> re_digit c) s \<noteq> []" by simp
  from hd_dropWhile [OF this] have "re_digit (hd rest)" unfolding r by simp
  then have "re_digit c" unfolding rc by simp
  then have "length (dropWhile re_digit rest) \<le> length cs"
    using rc length_dropWhile_le [of re_digit cs] by simp
  moreover have "length rest \<le> length s"
    using r length_dropWhile_le by metis
  ultimately show "(dropWhile re_digit rest, s) \<in> measure length"
    using rc by simp
qed

declare split_digits.simps [simp del]

datatype key_elem = KStr string | KInt int

text \<open>One element of the key: \<open>int(p)\<close> if \<open>p.isdigit()\<close>, else \<open>p.lower()\<close>.\<close>

definition key_part :: "string \<Rightarrow> py_error + key_elem" where
  "key_part p = (if isdigit p then (case py_int p of Inl e \<Rightarrow> Inl e | Inr n \<Rightarrow> Inr (KInt n))
                 else Inr (KStr (lower p)))"

text \<open>The loop over the parts stops at the first exception.\<close>

fun key_parts :: "string list \<Rightarrow> py_error + key_elem list" where
  "key_parts [] = Inr []"
| "key_parts (p # ps) =
     (case key_part p of Inl e \<Rightarrow> Inl e
      | Inr k \<Rightarrow> (case key_parts ps of Inl e \<Rightarrow> Inl e | Inr ks \<Rightarrow> Inr (k # ks)))"

definition natural_key :: "string \<Rightarrow> py_error + key_elem list" where
  "natural_key s = key_parts (split_digits s)"

text \<open>
  Comparison of two keys as Python compares lists: the first pair of unequal elements
  decides, by \<open><\<close> on two integers or on two strings (code point order), and
  \<open><\<close> between an integer and a string raises \<open>TypeError\<close>; if there is no such
  pair the shorter list is the smaller.
\<close>

fun str_lt :: "string \<Rightarrow> string \<Rightarrow> bool" where
  "str_lt [] [] = False"
| "str_lt [] (y # ys) = True"
| "str_lt (x # xs) [] = False"
| "str_lt (x # xs) (y # ys) = (if x = y then str_lt xs ys else cp x < cp y)"

fun elem_lt :: "key_elem \<Rightarrow> key_elem \<Rightarrow> py_error + bool" where
  "elem_lt (KInt a) (KInt b) = Inr (a < b)"
| "elem_lt (KStr a) (KStr b) = Inr (str_lt a b)"
| "elem_lt (KInt a) (KStr b) = Inl TypeError"
| "elem_lt (KStr a) (KInt b) = Inl TypeError"

fun key_lt :: "key_elem list \<Rightarrow> key_elem list \<Rightarrow> py_error + bool" where
  "key_lt [] [] = Inr False"
| "key_lt [] (y # ys) = Inr True"
| "key_lt (x # xs) [] = Inr False"
| "key_lt (x # xs) (y # ys) = (if x = y then key_lt xs ys else elem_lt x y)"

text \<open>A key alternates when its elements are string, integer, string, ... (\<open>b\<close>: a string is due).\<close>

fun alternates :: "bool \<Rightarrow> key_elem list \<Rightarrow> bool" where
  "alternates b [] = True"
| "alternates b (KStr s # ks) = (b \<and> alternates False ks)"
| "alternates b (KInt n # ks) = (\<not> b \<and> alternates True ks)"

text \<open>
  \<open>sorted(xs, key=f)\<close> computes every key first (an exception of \<open>f\<close> ends the
  call), then orders stably by \<open><\<close> on the keys. A stable sort has one result, the one
  insertion from the right gives. The comparisons of the keys this program sorts by never
  raise (\<open>key_lt_alternates\<close>), so the order is read off \<open>lt a b = Inr True\<close>.
\<close>

fun insort_by :: "('a \<Rightarrow> 'a \<Rightarrow> bool) \<Rightarrow> 'a \<Rightarrow> 'a list \<Rightarrow> 'a list" where
  "insort_by lt x [] = [x]"
| "insort_by lt x (y # ys) = (if lt y x then y # insort_by lt x ys else x # y # ys)"

definition sort_by :: "('a \<Rightarrow> 'a \<Rightarrow> bool) \<Rightarrow> 'a list \<Rightarrow> 'a list" where
  "sort_by lt xs = foldr (insort_by lt) xs []"

fun all_keys :: "('a \<Rightarrow> py_error + 'k) \<Rightarrow> 'a list \<Rightarrow> py_error + ('k \<times> 'a) list" where
  "all_keys key [] = Inr []"
| "all_keys key (x # xs) =
     (case key x of Inl e \<Rightarrow> Inl e
      | Inr k \<Rightarrow> (case all_keys key xs of Inl e \<Rightarrow> Inl e | Inr ks \<Rightarrow> Inr ((k, x) # ks)))"

definition py_sorted :: "('k \<Rightarrow> 'k \<Rightarrow> py_error + bool) \<Rightarrow> ('a \<Rightarrow> py_error + 'k) \<Rightarrow> 'a list \<Rightarrow> py_error + 'a list" where
  "py_sorted lt key xs =
     (case all_keys key xs of Inl e \<Rightarrow> Inl e
      | Inr ks \<Rightarrow> Inr (map snd (sort_by (\<lambda>a b. lt (fst a) (fst b) = Inr True) ks)))"

section \<open>String methods\<close>

text \<open>\<open>s.strip(chars)\<close>, \<open>s.lstrip(chars)\<close>, \<open>s.rstrip(chars)\<close>.\<close>

definition lstrip :: "string \<Rightarrow> string \<Rightarrow> string" where
  "lstrip chars s = dropWhile (\<lambda>c. c \<in> set chars) s"

definition rstrip :: "string \<Rightarrow> string \<Rightarrow> string" where
  "rstrip chars s = rev (dropWhile (\<lambda>c. c \<in> set chars) (rev s))"

definition strip :: "string \<Rightarrow> string \<Rightarrow> string" where
  "strip chars s = rstrip chars (lstrip chars s)"

definition startswith :: "string \<Rightarrow> string \<Rightarrow> bool" where
  "startswith s p = (take (length p) s = p)"

text \<open>
  \<open>s.replace(old, new)\<close>: every occurrence of \<open>old\<close>, left to right, without overlap;
  with an empty \<open>old\<close> Python puts \<open>new\<close> before every character and at the end.
\<close>

function replace_all :: "string \<Rightarrow> string \<Rightarrow> string \<Rightarrow> string" where
  "replace_all old new s =
     (if old = [] then new @ concat (map (\<lambda>c. c # new) s)
      else if s = [] then []
      else if startswith s old then new @ replace_all old new (drop (length old) s)
      else hd s # replace_all old new (tl s))"
  by pat_completeness auto
termination
  by (relation "measure (\<lambda>(old, new, s). length s)") auto

declare replace_all.simps [simp del]

text \<open>\<open>s.replace(old, new, 1)\<close>: the first occurrence only.\<close>

fun replace_first :: "string \<Rightarrow> string \<Rightarrow> string \<Rightarrow> string" where
  "replace_first old new [] = (if old = [] then new else [])"
| "replace_first old new (c # cs) =
     (if startswith (c # cs) old then new @ drop (length old) (c # cs)
      else c # replace_first old new cs)"

text \<open>\<open>s.zfill(width)\<close> for a string of digits (no sign).\<close>

definition zfill :: "int \<Rightarrow> string \<Rightarrow> string" where
  "zfill width s = replicate (nat (width - int (length s))) CHR ''0'' @ s"

text \<open>\<open>str(n)\<close> of an integer.\<close>

function str_nat :: "nat \<Rightarrow> string" where
  "str_nat n = (if n < 10 then [char_of (48 + n)] else str_nat (n div 10) @ [char_of (48 + n mod 10)])"
  by pat_completeness auto
termination
  by (relation "measure id") auto

declare str_nat.simps [simp del]

definition str_int :: "int \<Rightarrow> string" where
  "str_int i = (if i < 0 then CHR ''-'' # str_nat (nat (- i)) else str_nat (nat i))"

section \<open>os.path (posixpath)\<close>

definition basename :: "string \<Rightarrow> string" where
  "basename p = rev (takeWhile (\<lambda>c. c \<noteq> CHR ''/'') (rev p))"

definition dirname :: "string \<Rightarrow> string" where
  "dirname p =
     (let head = rev (dropWhile (\<lambda>c. c \<noteq> CHR ''/'') (rev p))
      in if head \<noteq> [] \<and> \<not> list_all (\<lambda>c. c = CHR ''/'') head then rstrip ''/'' head else head)"

text \<open>
  \<open>os.path.splitext\<close>: the extension starts at the last dot of the last path component,
  unless only dots come before it in that component.
\<close>

definition splitext :: "string \<Rightarrow> string \<times> string" where
  "splitext p =
     (let base = basename p;
          ext = rev (takeWhile (\<lambda>c. c \<noteq> CHR ''.'') (rev base));
          stem = take (length base - length ext - 1) base
      in if CHR ''.'' \<in> set base \<and> \<not> list_all (\<lambda>c. c = CHR ''.'') stem
         then (take (length p - length ext - 1) p, CHR ''.'' # ext)
         else (p, []))"

definition join :: "string \<Rightarrow> string \<Rightarrow> string" where
  "join a b =
     (if startswith b ''/'' then b
      else if a = [] \<or> (a \<noteq> [] \<and> last a = CHR ''/'') then a @ b
      else a @ ''/'' @ b)"

section \<open>Regular expressions\<close>

text \<open>
  The patterns of the program, as syntax trees, and the matching of module \<open>re\<close> on them:
  backtracking, leftmost, alternatives and repetitions tried in priority order (a greedy
  repetition tries more iterations first, a lazy one fewer). \<open>ms r st\<close> lists, best
  first, the states in which a match of \<open>r\<close> started in state \<open>st\<close> can end. A state holds
  the character before the current position (for \<open>\b\<close>), the text from the current
  position on, and the groups captured so far. Every unbounded repetition in the program's
  patterns is over a class of single characters, so an iteration consumes one character
  and the length of the remaining text bounds the number of iterations.
\<close>

datatype re =
    Cls "char \<Rightarrow> bool"
  | Eps
  | Seq re re
  | Alt re re
  | Rep re nat "nat option" bool
  | Grp nat re
  | WordB

datatype mstate = MState (m_prev: "char option") (m_rest: string) (m_groups: "(nat \<times> string) list")

fun rep_aux :: "(mstate \<Rightarrow> mstate list) \<Rightarrow> bool \<Rightarrow> nat \<Rightarrow> nat \<Rightarrow> mstate \<Rightarrow> mstate list" where
  "rep_aux m greedy lo 0 st = (if lo = 0 then [st] else [])"
| "rep_aux m greedy lo (Suc n) st =
     (let more = concat (map (rep_aux m greedy (lo - 1) n) (m st));
          stop = (if lo = 0 then [st] else [])
      in if greedy then more @ stop else stop @ more)"

definition is_word_opt :: "char option \<Rightarrow> bool" where
  "is_word_opt c = (case c of None \<Rightarrow> False | Some x \<Rightarrow> re_word x)"

primrec ms :: "re \<Rightarrow> mstate \<Rightarrow> mstate list" where
  "ms (Cls P) = (\<lambda>st. case m_rest st of [] \<Rightarrow> []
                   | c # cs \<Rightarrow> if P c then [MState (Some c) cs (m_groups st)] else [])"
| "ms Eps = (\<lambda>st. [st])"
| "ms (Seq r1 r2) = (\<lambda>st. concat (map (ms r2) (ms r1 st)))"
| "ms (Alt r1 r2) = (\<lambda>st. ms r1 st @ ms r2 st)"
| "ms (Rep r lo hi greedy) =
     (\<lambda>st. rep_aux (ms r) greedy lo (case hi of None \<Rightarrow> length (m_rest st) | Some h \<Rightarrow> h) st)"
| "ms (Grp k r) =
     (\<lambda>st. map (\<lambda>st'. MState (m_prev st') (m_rest st')
                     ((k, take (length (m_rest st) - length (m_rest st')) (m_rest st)) # m_groups st'))
               (ms r st))"
| "ms WordB =
     (\<lambda>st. if is_word_opt (m_prev st) \<noteq> is_word_opt (case m_rest st of [] \<Rightarrow> None | c # _ \<Rightarrow> Some c)
           then [st] else [])"

text \<open>\<open>re.search\<close>: the best match at the leftmost position that has one.\<close>

fun search_from :: "re \<Rightarrow> char option \<Rightarrow> string \<Rightarrow> mstate option" where
  "search_from r p [] = (case ms r (MState p [] []) of [] \<Rightarrow> None | st # _ \<Rightarrow> Some st)"
| "search_from r p (c # cs) =
     (case ms r (MState p (c # cs) []) of [] \<Rightarrow> search_from r (Some c) cs | st # _ \<Rightarrow> Some st)"

definition re_search :: "re \<Rightarrow> string \<Rightarrow> mstate option" where
  "re_search r s = search_from r None s"

text \<open>\<open>re.fullmatch\<close>: the best match from the start that ends at the end.\<close>

definition re_fullmatch :: "re \<Rightarrow> string \<Rightarrow> bool" where
  "re_fullmatch r s = (\<exists>st \<in> set (ms r (MState None s [])). m_rest st = [])"

text \<open>\<open>m.group(k)\<close>; every group of the program's patterns takes part in every match.\<close>

definition group :: "mstate \<Rightarrow> nat \<Rightarrow> string" where
  "group st k = (case map_of (m_groups st) k of None \<Rightarrow> [] | Some t \<Rightarrow> t)"

definition one_of :: "string \<Rightarrow> re" where
  "one_of cs = Cls (\<lambda>c. c \<in> set cs)"

definition lit :: "string \<Rightarrow> re" where
  "lit t = foldr (\<lambda>c r. Seq (Cls (\<lambda>x. x = c)) r) t Eps"

text \<open>A literal under \<open>re.IGNORECASE\<close> (on Latin-1, the two cases of each letter).\<close>

definition lit_i :: "string \<Rightarrow> re" where
  "lit_i t = foldr (\<lambda>c r. Seq (Cls (\<lambda>x. chr_lower x = chr_lower c)) r) t Eps"

definition digits :: "nat \<Rightarrow> nat option \<Rightarrow> re" where
  "digits lo hi = Rep (Cls re_digit) lo hi True"

definition seqs :: "re list \<Rightarrow> re" where
  "seqs rs = foldr Seq rs Eps"

section \<open>parse_episode_info\<close>

text \<open>The stop tokens, lower-cased as the module does after building the set.\<close>

definition STOP_TOKENS :: "string list" where
  "STOP_TOKENS = map lower
     [''2160p'', ''1080p'', ''720p'', ''480p'', ''WEB-DL'', ''WEB'', ''WEBRip'', ''WEB-DLRip'', ''WEB-DL2'',
      ''BluRay'', ''BRRip'', ''BDRip'', ''HDRip'', ''HDTV'', ''DVDRip'',
      ''x264'', ''x265'', ''h264'', ''h265'', ''hevc'', ''AVC'', ''AAC'', ''DDP'', ''DDP5.1'', ''DD+'', ''Atmos'',
      ''HEVC'', ''10bit'', ''8bit'', ''PROPER'', ''REPACK'', ''EXTENDED'', ''UNRATED'']"

definition is_sep :: "char \<Rightarrow> bool" where
  "is_sep c = (c \<in> set ''._-'' \<or> re_space c)"

text \<open>\<open>re.split(r'[._\-\s]+', rem)\<close>: the pieces between the runs of separators.\<close>

function split_seps :: "string \<Rightarrow> string list" where
  "split_seps s =
     (let tok = takeWhile (\<lambda>c. \<not> is_sep c) s;
          more = dropWhile (\<lambda>c. \<not> is_sep c) s
      in if more = [] then [tok] else tok # split_seps (dropWhile is_sep more))"
  by pat_completeness auto
termination
proof (relation "measure length")
  show "wf (measure length)" by simp
next
  fix s :: string and tok more
  assume r: "more = dropWhile (\<lambda>c. \<not> is_sep c) s" and ne: "more \<noteq> []"
  from ne obtain c cs where rc: "more = c # cs" by (cases more) auto
  from r ne have "dropWhile (\<lambda>c. \<not> is_sep c) s \<noteq> []" by simp
  from hd_dropWhile [OF this] have "is_sep (hd more)" unfolding r by simp
  then have "is_sep c" unfolding rc by simp
  then have "length (dropWhile is_sep more) \<le> length cs"
    using rc length_dropWhile_le [of is_sep cs] by simp
  moreover have "length more \<le> length s"
    using r length_dropWhile_le by metis
  ultimately show "(dropWhile is_sep more, s) \<in> measure length"
    using rc by simp
qed

declare split_seps.simps [simp del]

definition any_char :: re where
  "any_char = Cls (\<lambda>c. c \<noteq> char_of (10::nat))"

text \<open>\<open>\d{3,4}p\<close>, \<open>\d+\.\d+\<close> and \<open>\[.*\]|\(.*\)\<close>.\<close>

definition re_resolution :: re where
  "re_resolution = seqs [digits 3 (Some 4), lit ''p'']"

definition re_channels :: re where
  "re_channels = seqs [digits 1 None, lit ''.'', digits 1 None]"

definition re_bracketed :: re where
  "re_bracketed = Alt (seqs [lit ''['', Rep any_char 0 None True, lit '']''])
                      (seqs [lit ''('', Rep any_char 0 None True, lit '')''])"

text \<open>The loop over the tokens: \<open>continue\<close> goes on with the rest, \<open>break\<close> ends the list.\<close>

fun keep_tokens :: "string list \<Rightarrow> string list" where
  "keep_tokens [] = []"
| "keep_tokens (tok # toks) =
     (if tok = [] then keep_tokens toks
      else if lower tok \<in> set STOP_TOKENS then []
      else if re_fullmatch re_resolution (lower tok) then []
      else if re_fullmatch re_channels tok then []
      else if re_fullmatch re_bracketed tok then keep_tokens toks
      else tok # keep_tokens toks)"

fun join_dot :: "string list \<Rightarrow> string" where
  "join_dot [] = []"
| "join_dot [t] = t"
| "join_dot (t # ts) = t @ ''.'' @ join_dot ts"

definition extract_after_pos :: "string \<Rightarrow> nat \<Rightarrow> string option" where
  "extract_after_pos s pos =
     (let rem = strip '' ._-'' (drop pos s)
      in if rem = [] then None
         else (let out_tokens = keep_tokens (split_seps rem)
               in if out_tokens = [] then None else Some (join_dot out_tokens)))"

text \<open>\<open>m.end()\<close> of a match in \<open>name\<close>, and \<open>int(m.group(k))\<close>: a group of these patterns is
  a run of decimal digits, on which \<open>int\<close> does not raise.\<close>

definition m_end :: "string \<Rightarrow> mstate \<Rightarrow> nat" where
  "m_end name st = length name - length (m_rest st)"

definition group_int :: "mstate \<Rightarrow> nat \<Rightarrow> int" where
  "group_int st k = digits_value (group st k)"

text \<open>
  The seven patterns. The characters of rules 4 and 5 (U+7B2C, U+5B63, U+96C6, U+8BDD,
  U+56DE) are not below U+0100: no character of a modelled string matches them.
\<close>

definition beyond_latin1 :: re where
  "beyond_latin1 = Cls (\<lambda>c. False)"

definition seps_lazy :: re where
  "seps_lazy = Rep (one_of '' ._-'') 0 None False"

definition spaces :: re where
  "spaces = Rep (Cls re_space) 0 None True"

definition re_sxxeyy :: re where
  "re_sxxeyy = seqs [one_of ''sS'', Grp 1 (digits 1 (Some 2)), Rep (one_of '' ._-'') 0 (Some 1) True,
                     one_of ''eE'', Grp 2 (digits 1 (Some 3))]"

definition re_nxm :: re where
  "re_nxm = seqs [Grp 1 (digits 1 (Some 2)), one_of ''xX'', Grp 2 (digits 1 (Some 3))]"

definition re_season_episode :: re where
  "re_season_episode =
     seqs [one_of ''sS'', lit_i ''eason'', seps_lazy, Grp 1 (digits 1 (Some 2)),
           Rep any_char 0 None False, one_of ''eE'', lit_i ''p'', Rep (lit_i ''isode'') 0 (Some 1) True,
           seps_lazy, Grp 2 (digits 1 (Some 3))]"

definition re_cn_season :: re where
  "re_cn_season = seqs [beyond_latin1, spaces, Grp 1 (digits 1 (Some 2)), spaces, beyond_latin1]"

definition re_cn_episode :: re where
  "re_cn_episode = seqs [beyond_latin1, spaces, Grp 1 (digits 1 (Some 3)), spaces, beyond_latin1]"

definition re_episode :: re where
  "re_episode = seqs [one_of ''eE'', lit ''pisode'', seps_lazy, Grp 1 (digits 1 (Some 3))]"

definition re_standalone :: re where
  "re_standalone = seqs [WordB, Grp 1 (digits 1 (Some 3)), WordB]"

type_synonym parsed = "int option \<times> int option \<times> string option"

text \<open>
  Rule 7 reads \<open>nums[0]\<close> of \<open>re.findall\<close>, the group of the leftmost match, which is the
  match \<open>re.search\<close> finds; \<open>nums\<close> is empty when there is none. It then searches the name
  for that number between word boundaries.
\<close>

definition parse_episode_info :: "string \<Rightarrow> parsed" where
  "parse_episode_info filename =
     (let name = fst (splitext (basename filename))
      in case re_search re_sxxeyy name of
           Some m \<Rightarrow> (Some (group_int m 1), Some (group_int m 2), extract_after_pos name (m_end name m))
         | None \<Rightarrow>
      (case re_search re_nxm name of
           Some m \<Rightarrow> (Some (group_int m 1), Some (group_int m 2), extract_after_pos name (m_end name m))
         | None \<Rightarrow>
      (case re_search re_season_episode name of
           Some m \<Rightarrow> (Some (group_int m 1), Some (group_int m 2), extract_after_pos name (m_end name m))
         | None \<Rightarrow>
      (case re_search re_cn_season name of
           Some m \<Rightarrow>
             (case re_search re_cn_episode name of
                Some m2 \<Rightarrow> (Some (group_int m 1), Some (group_int m2 1),
                             extract_after_pos name (m_end name m2))
              | None \<Rightarrow> (Some (group_int m 1), None, None))
         | None \<Rightarrow>
      (case re_search re_cn_episode name of
           Some m \<Rightarrow> (None, Some (group_int m 1), extract_after_pos name (m_end name m))
         | None \<Rightarrow>
      (case re_search re_episode name of
           Some m \<Rightarrow> (None, Some (group_int m 1), extract_after_pos name (m_end name m))
         | None \<Rightarrow>
      (case re_search re_standalone name of
           Some m \<Rightarrow>
             (None, Some (group_int m 1),
              (case re_search (seqs [WordB, lit (group m 1), WordB]) name of
                 Some first_pos \<Rightarrow> extract_after_pos name (m_end name first_pos)
               | None \<Rightarrow> None))
         | None \<Rightarrow> (None, None, None))))))))"

section \<open>format_template\<close>

text \<open>
  \<open>template.format(**context)\<close> is Python's \<open>str.format\<close>, library code whose result the
  program only passes on. The model takes it as a parameter \<open>fmt\<close>: a function from the
  template and the context to the formatted string or the exception raised. Everything
  proved holds for every such function.
\<close>

record fmt_context =
  c_title :: string
  c_season :: int
  c_episode :: int
  c_ep :: int
  c_ext :: string
  c_orig :: string

type_synonym formatter = "string \<Rightarrow> fmt_context \<Rightarrow> py_error + string"

text \<open>The \<open>except\<close> branch: plain replacement of the placeholders, in the source's order.\<close>

definition format_fallback :: "string \<Rightarrow> string \<Rightarrow> int option \<Rightarrow> int option \<Rightarrow> string \<Rightarrow> string \<Rightarrow> string" where
  "format_fallback template title season episode ext orig =
     (let out = replace_all ''{orig}'' orig
                  (replace_all ''{ext}'' (lstrip ''.'' ext) (replace_all ''{title}'' title template));
          out = replace_all ''{season}'' (str_int (case season of None \<Rightarrow> 0 | Some s \<Rightarrow> s)) out;
          out = replace_all ''{ep}'' (str_int (case episode of None \<Rightarrow> 0 | Some e \<Rightarrow> e))
                  (replace_all ''{episode}'' (str_int (case episode of None \<Rightarrow> 0 | Some e \<Rightarrow> e)) out)
      in out)"

text \<open>The \<open>try\<close> block builds the context and formats; any exception leads to the fallback.\<close>

definition format_template ::
  "formatter \<Rightarrow> string \<Rightarrow> string \<Rightarrow> int option \<Rightarrow> int option \<Rightarrow> string \<Rightarrow> string \<Rightarrow> py_error + string" where
  "format_template fmt template title season episode ext orig =
     (let s = (case season of None \<Rightarrow> 0 | Some v \<Rightarrow> v);
          e = (case episode of None \<Rightarrow> 0 | Some v \<Rightarrow> v);
          context = \<lparr>c_title = title, c_season = s, c_episode = e, c_ep = e,
                     c_ext = lstrip ''.'' ext, c_orig = orig\<rparr>
      in case fmt template context of
           Inr out \<Rightarrow> Inr out
         | Inl err \<Rightarrow> Inr (format_fallback template title season episode ext orig))"

section \<open>_apply_padding_to_template\<close>

text \<open>\<open>[eE](\d{1,})\<close>\<close>

definition re_ep_marker :: re where
  "re_ep_marker = seqs [one_of ''eE'', Grp 1 (digits 1 None)]"

definition apply_padding_to_template :: "string \<Rightarrow> int \<Rightarrow> string" where
  "apply_padding_to_template newbase pad =
     (case re_search re_ep_marker newbase of
        None \<Rightarrow> newbase
      | Some m \<Rightarrow>
          (let num = group m 1
           in if int (length num) < pad then replace_first num (zfill pad num) newbase
              else newbase))"

section \<open>preview\<close>

text \<open>
  The values the preview reads from the interface: the template, the title and season
  fields as typed, the sort method and the switches, and the pad width and the offset.
  These two are \<open>tk.IntVar\<close>s bound to an editable spin box and entry:
  \<open>self.var_pad.get()\<close> and \<open>self.var_offset.get()\<close> are tkinter code that gives the
  integer the field holds, or raises \<open>TclError\<close> when its text is empty or not a number.
  The model takes the outcome of each of the two reads as given.
\<close>

record settings =
  var_template :: string
  var_title :: string
  var_season :: string
  var_pad :: "py_error + int"
  var_offset :: "py_error + int"
  var_sort_method :: string
  var_include_episode_title :: bool
  var_move_season_folder :: bool
  var_conflict_suffix :: string

definition bind_r :: "'e + 'a \<Rightarrow> ('a \<Rightarrow> 'e + 'b) \<Rightarrow> 'e + 'b" where
  "bind_r x f = (case x of Inl e \<Rightarrow> Inl e | Inr v \<Rightarrow> f v)"

fun map_r :: "('a \<Rightarrow> 'e + 'b) \<Rightarrow> 'a list \<Rightarrow> 'e + 'b list" where
  "map_r f [] = Inr []"
| "map_r f (x # xs) =
     (case f x of Inl e \<Rightarrow> Inl e
      | Inr y \<Rightarrow> (case map_r f xs of Inl e \<Rightarrow> Inl e | Inr ys \<Rightarrow> Inr (y # ys)))"

text \<open>\<open>s.strip()\<close>: white space off both ends.\<close>

definition strip_ws :: "string \<Rightarrow> string" where
  "strip_ws s = rev (dropWhile re_space (rev (dropWhile re_space s)))"

subsection \<open>Ordering the files\<close>

text \<open>
  The key of method \<open>guess\<close>: \<open>(0, e_auto, natural_key(name))\<close> when an episode was parsed,
  else \<open>(1, natural_key(name))\<close>, compared as tuples.
\<close>

datatype guess_key = Guess0 int "key_elem list" | Guess1 "key_elem list"

fun guess_lt :: "guess_key \<Rightarrow> guess_key \<Rightarrow> py_error + bool" where
  "guess_lt (Guess0 e k) (Guess0 e' k') = (if e = e' then key_lt k k' else Inr (e < e'))"
| "guess_lt (Guess0 e k) (Guess1 k') = Inr True"
| "guess_lt (Guess1 k) (Guess0 e' k') = Inr False"
| "guess_lt (Guess1 k) (Guess1 k') = key_lt k k'"

definition guess_key :: "string \<Rightarrow> py_error + guess_key" where
  "guess_key p =
     (case parse_episode_info p of
        (s_auto, Some e_auto, extra) \<Rightarrow> bind_r (natural_key (basename p)) (\<lambda>k. Inr (Guess0 e_auto k))
      | (s_auto, None, extra) \<Rightarrow> bind_r (natural_key (basename p)) (\<lambda>k. Inr (Guess1 k)))"

text \<open>Method \<open>numeric\<close> spells out the key of \<open>natural_key\<close> in place; any other method
  string leaves the order as it is.\<close>

definition sort_files :: "string \<Rightarrow> string list \<Rightarrow> py_error + string list" where
  "sort_files method files =
     (if method = ''name'' then py_sorted key_lt (\<lambda>p. natural_key (basename p)) files
      else if method = ''numeric'' then py_sorted key_lt (\<lambda>p. natural_key (basename p)) files
      else if method = ''guess'' then py_sorted guess_lt guess_key files
      else Inr files)"

subsection \<open>Choosing the numbering\<close>

type_synonym parsed_file = "string \<times> int option \<times> int option \<times> string option"

definition parse_files :: "string list \<Rightarrow> parsed_file list" where
  "parse_files files = map (\<lambda>p. (p, parse_episode_info p)) files"

definition parsed_es :: "parsed_file list \<Rightarrow> int list" where
  "parsed_es parsed = concat (map (\<lambda>(p, s, e, ex). case e of None \<Rightarrow> [] | Some v \<Rightarrow> [v]) parsed)"

definition threshold :: "nat \<Rightarrow> nat" where
  "threshold n = max 2 (n div 3)"

definition use_parsed_numbers :: "parsed_file list \<Rightarrow> bool" where
  "use_parsed_numbers parsed = (length (parsed_es parsed) \<ge> threshold (length parsed))"

definition is_pure_numeric :: "string \<Rightarrow> bool" where
  "is_pure_numeric p = re_fullmatch (digits 1 (Some 3)) (fst (splitext (basename p)))"

definition pure_numeric_files :: "parsed_file list \<Rightarrow> string list" where
  "pure_numeric_files parsed = filter is_pure_numeric (map fst parsed)"

datatype strategy = TrustParsed | PureNumeric | SequentialFallback

text \<open>The three-way branch of the preview: \<open>if use_parsed_numbers\<close>, \<open>elif\<close> enough
  pure-numeric names, \<open>else\<close>.\<close>

definition select_strategy :: "parsed_file list \<Rightarrow> strategy" where
  "select_strategy parsed =
     (if use_parsed_numbers parsed then TrustParsed
      else if pure_numeric_files parsed \<noteq> []
              \<and> length (pure_numeric_files parsed) \<ge> threshold (length parsed) then PureNumeric
      else SequentialFallback)"

text \<open>
  \<open>season_val\<close>: the season field, stripped, as an integer if \<open>isdigit\<close> holds of it, else
  absent. \<open>title\<close>: the title field, stripped, or \<open>Series\<close>.
\<close>

definition season_val :: "settings \<Rightarrow> py_error + int option" where
  "season_val cfg =
     (let season_input = strip_ws (var_season cfg)
      in if isdigit season_input then bind_r (py_int season_input) (\<lambda>v. Inr (Some v))
         else Inr None)"

definition title_of :: "settings \<Rightarrow> string" where
  "title_of cfg = (let t = strip_ws (var_title cfg) in if t = [] then ''Series'' else t)"

subsection \<open>The three numberings\<close>

text \<open>
  Each branch gives every file a season and an episode number and renders the name. The
  model splits the loop body in two: the numbering (file, season, episode, title to
  append) and the rendering of one numbered file.
\<close>

type_synonym numbered = "string \<times> int \<times> int \<times> string option"

definition enumerate :: "nat \<Rightarrow> 'a list \<Rightarrow> (int \<times> 'a) list" where
  "enumerate start xs = zip (map int [start..<start + length xs]) xs"

text \<open>The sort key of the first branch: \<open>(episode or 999999, natural_key(name))\<close>.\<close>

fun trust_lt :: "int \<times> key_elem list \<Rightarrow> int \<times> key_elem list \<Rightarrow> py_error + bool" where
  "trust_lt (a, k) (b, k') = (if a = b then key_lt k k' else Inr (a < b))"

definition trust_key :: "parsed_file \<Rightarrow> py_error + int \<times> key_elem list" where
  "trust_key x =
     (case x of (p, s, e, ex) \<Rightarrow>
        bind_r (natural_key (basename p)) (\<lambda>k. Inr (case e of None \<Rightarrow> 999999 | Some v \<Rightarrow> v, k)))"

definition trust_numbers :: "int option \<Rightarrow> int \<Rightarrow> parsed_file list \<Rightarrow> numbered list" where
  "trust_numbers sv offset parsed_sorted =
     map (\<lambda>(idx, (p, s_auto, e_auto, extra_auto)).
            (p,
             (case sv of Some v \<Rightarrow> v | None \<Rightarrow> (case s_auto of Some v \<Rightarrow> v | None \<Rightarrow> 1)),
             (case e_auto of Some v \<Rightarrow> v | None \<Rightarrow> idx + 1) + offset,
             extra_auto))
         (enumerate 0 parsed_sorted)"

text \<open>The second branch: the pure-numeric files by numeric value, numbered from 1, then
  the other files in their order.\<close>

definition stem_int :: "string \<Rightarrow> int" where
  "stem_int p = digits_value (fst (splitext (basename p)))"

definition pure_numbers :: "int option \<Rightarrow> int \<Rightarrow> parsed_file list \<Rightarrow> numbered list" where
  "pure_numbers sv offset parsed =
     (let files_sorted_num = sort_by (\<lambda>a b. stem_int a < stem_int b) (pure_numeric_files parsed);
          other_files = filter (\<lambda>p. p \<notin> set (pure_numeric_files parsed)) (map fst parsed)
      in map (\<lambda>(idx, p). (p, (case sv of Some v \<Rightarrow> v | None \<Rightarrow> 1), idx + offset, None))
             (enumerate 1 files_sorted_num)
         @ map (\<lambda>p. (p, (case sv of Some v \<Rightarrow> v | None \<Rightarrow> 1),
                        int (length files_sorted_num) + 1 + offset, None))
               other_files)"

definition sequential_numbers :: "int option \<Rightarrow> int \<Rightarrow> parsed_file list \<Rightarrow> numbered list" where
  "sequential_numbers sv offset parsed =
     map (\<lambda>(idx, (p, s_auto, e_auto, extra_auto)).
            (p,
             (case sv of Some v \<Rightarrow> v | None \<Rightarrow> (case s_auto of Some v \<Rightarrow> v | None \<Rightarrow> 1)),
             (case e_auto of Some v \<Rightarrow> v | None \<Rightarrow> idx) + offset,
             extra_auto))
         (enumerate 1 parsed)"

subsection \<open>Rendering one entry\<close>

text \<open>\<open>re.sub(r'[\\/:*?"<>|]+', '', extra).strip('. ')\<close>\<close>

definition safe_extra :: "string \<Rightarrow> string" where
  "safe_extra extra =
     strip ''. '' (filter (\<lambda>c. c \<notin> set [char_of (0x5C::nat), CHR ''/'', CHR '':'', CHR ''*'', CHR ''?'',
                                         char_of (0x22::nat), CHR ''<'', CHR ''>'', CHR ''|'']) extra)"

type_synonym entry = "string \<times> string \<times> string \<times> string"

definition render :: "formatter \<Rightarrow> settings \<Rightarrow> int \<Rightarrow> numbered \<Rightarrow> py_error + entry" where
  "render fmt cfg pad x =
     (case x of (p, season_final, ep, extra) \<Rightarrow>
        bind_r (format_template fmt (var_template cfg) (title_of cfg) (Some season_final) (Some ep)
                  (snd (splitext p)) (basename p))
          (\<lambda>base_new.
             let base_new =
                   (case extra of
                      None \<Rightarrow> base_new
                    | Some ex \<Rightarrow>
                        if var_include_episode_title cfg \<and> ex \<noteq> [] \<and> safe_extra ex \<noteq> []
                        then fst (splitext base_new) @ ''.'' @ safe_extra ex @ snd (splitext base_new)
                        else base_new);
                 base_new = apply_padding_to_template base_new pad;
                 newname = basename base_new
             in Inr (p, join (dirname p) newname, basename p, newname)))"

subsection \<open>The preview list\<close>

definition numbering :: "int option \<Rightarrow> int \<Rightarrow> parsed_file list \<Rightarrow> py_error + numbered list" where
  "numbering sv offset parsed =
     (case select_strategy parsed of
        TrustParsed \<Rightarrow> bind_r (py_sorted trust_lt trust_key parsed)
                         (\<lambda>parsed_sorted. Inr (trust_numbers sv offset parsed_sorted))
      | PureNumeric \<Rightarrow> Inr (pure_numbers sv offset parsed)
      | SequentialFallback \<Rightarrow> Inr (sequential_numbers sv offset parsed))"

text \<open>
  The preview list built from the scanned file list; an empty file list leaves the
  cleared preview list. The steps come in the order of the source: the files are ordered
  and parsed, then pad, offset and season are read, then the entries are built. An
  exception ends the pass (\<open>Inl\<close>).
\<close>

definition preview :: "formatter \<Rightarrow> settings \<Rightarrow> string list \<Rightarrow> py_error + entry list" where
  "preview fmt cfg file_list =
     (if file_list = [] then Inr []
      else bind_r (sort_files (var_sort_method cfg) file_list) (\<lambda>files.
           bind_r (var_pad cfg) (\<lambda>pad.
           bind_r (var_offset cfg) (\<lambda>offset.
           bind_r (season_val cfg) (\<lambda>sv.
           bind_r (numbering sv offset (parse_files files)) (\<lambda>nums.
           map_r (render fmt cfg pad) nums))))))"

text \<open>
  \<open>self.preview_list\<close> after the pass. The pass clears the list first and appends the
  entries in the loop of the branch taken; every exception comes before that loop, so a
  pass that raises leaves the list empty.
\<close>

definition preview_list_after :: "formatter \<Rightarrow> settings \<Rightarrow> string list \<Rightarrow> entry list" where
  "preview_list_after fmt cfg file_list =
     (case preview fmt cfg file_list of Inl e \<Rightarrow> [] | Inr es \<Rightarrow> es)"

subsection \<open>Conflicts and tags\<close>

type_synonym target_key = "string \<times> string"

definition target_key :: "entry \<Rightarrow> target_key" where
  "target_key x = (case x of (oldabs, newabs, oldname, newname) \<Rightarrow> (dirname oldabs, lower newname))"

text \<open>The loop that fills \<open>conflict_set\<close> and \<open>seen_targets\<close>.\<close>

fun detect_conflicts ::
  "entry list \<Rightarrow> target_key set \<times> (target_key \<rightharpoonup> string) \<Rightarrow> target_key set \<times> (target_key \<rightharpoonup> string)" where
  "detect_conflicts [] st = st"
| "detect_conflicts (x # xs) (conflict_set, seen_targets) =
     (if target_key x \<in> dom seen_targets
      then detect_conflicts xs (insert (target_key x) conflict_set, seen_targets)
      else detect_conflicts xs (conflict_set, seen_targets(target_key x \<mapsto> fst x)))"

definition conflict_set :: "entry list \<Rightarrow> target_key set" where
  "conflict_set preview_list = fst (detect_conflicts preview_list ({}, Map.empty))"

definition tag_of :: "entry list \<Rightarrow> entry \<Rightarrow> string" where
  "tag_of preview_list x =
     (case x of (oldabs, newabs, oldname, newname) \<Rightarrow>
        if target_key x \<in> conflict_set preview_list then ''conflict''
        else if oldname = newname then ''unchanged''
        else '''')"

text \<open>A name carries an SxxEyy marker when the first pattern of the parser matches it.\<close>

definition carries_sxxeyy :: "string \<Rightarrow> bool" where
  "carries_sxxeyy p = (re_search re_sxxeyy (fst (splitext (basename p))) \<noteq> None)"


text \<open>
  The last step of \<open>_scan_task\<close>: the files found are ordered by the natural key of their
  base names; the ordered list becomes \<open>file_list\<close>. When a key raises, the scan task ends
  there and \<open>file_list\<close> is not replaced.
\<close>

definition scan_sorted :: "string list \<Rightarrow> py_error + string list" where
  "scan_sorted found = py_sorted key_lt (\<lambda>p. natural_key (basename p)) found"


text \<open>
  A batch of nine files, in the order the scan gives them: eight names with a free-standing
  number and one with an SxxEyy marker.
\<close>

definition nine_files :: "string list" where
  "nine_files = [''/d/a 2.mkv'', ''/d/a 3.mkv'', ''/d/a 4.mkv'', ''/d/a 5.mkv'', ''/d/a 6.mkv'',
                 ''/d/a 7.mkv'', ''/d/a 8.mkv'', ''/d/a 9.mkv'', ''/d/S1E1.mkv'']"

section \<open>The file system\<close>

text \<open>
  The state the executor and the undo engine work on: the regular files, as a list of
  (path, content) of which the first entry for a path counts, and the directories. Paths
  are compared as strings: there are no links and no \<open>.\<close> or \<open>..\<close> components, and the
  sources moved are regular files. The root and the working directory (the empty parent
  of a relative name) are directories without being listed.
\<close>

record fs =
  fs_files :: "(string \<times> string) list"
  fs_dirs :: "string list"

definition isfile :: "fs \<Rightarrow> string \<Rightarrow> bool" where
  "isfile s p = (map_of (fs_files s) p \<noteq> None)"

definition isdir :: "fs \<Rightarrow> string \<Rightarrow> bool" where
  "isdir s p = (p \<in> set (fs_dirs s) \<or> p = ''/'')"

text \<open>\<open>os.path.exists\<close>\<close>

definition path_exists :: "fs \<Rightarrow> string \<Rightarrow> bool" where
  "path_exists s p = (isfile s p \<or> isdir s p)"

text \<open>The directory \<open>d\<close> and the directories above it, nearest first.\<close>

fun ancestors :: "nat \<Rightarrow> string \<Rightarrow> string list" where
  "ancestors 0 d = []"
| "ancestors (Suc n) d = (if d = [] \<or> d = ''/'' then [] else d # ancestors n (dirname d))"

text \<open>
  \<open>os.makedirs(d, exist_ok=True)\<close>: creates \<open>d\<close> and the missing directories above it;
  fails on the empty path and when one of them is a regular file.
\<close>

definition makedirs :: "fs \<Rightarrow> string \<Rightarrow> py_error + fs" where
  "makedirs s d =
     (if d = [] \<or> (\<exists>a \<in> set (ancestors (length d) d). isfile s a) then Inl OSError
      else Inr (s\<lparr>fs_dirs := filter (\<lambda>a. \<not> isdir s a) (ancestors (length d) d) @ fs_dirs s\<rparr>))"

text \<open>
  \<open>shutil.move(src, dst)\<close> for a regular file \<open>src\<close>: into \<open>dst\<close> when that is a directory
  (an error if the name is taken there), else onto \<open>dst\<close>, replacing a file that is there.
  It fails when \<open>src\<close> is missing or the directory of the destination does not exist.
\<close>

definition move :: "fs \<Rightarrow> string \<Rightarrow> string \<Rightarrow> py_error + fs" where
  "move s src dst =
     (let real_dst = (if isdir s dst then join dst (basename (rstrip ''/'' src)) else dst)
      in if isdir s dst \<and> path_exists s real_dst then Inl OSError
         else case map_of (fs_files s) src of
                None \<Rightarrow> Inl OSError
              | Some content \<Rightarrow>
                  if isdir s real_dst then Inl OSError
                  else if dirname real_dst \<noteq> [] \<and> \<not> isdir s (dirname real_dst) then Inl OSError
                  else if real_dst = src then Inr s
                  else Inr (s\<lparr>fs_files := (real_dst, content)
                                        # filter (\<lambda>(p, c). p \<noteq> src \<and> p \<noteq> real_dst) (fs_files s)\<rparr>))"

section \<open>_execute_task\<close>

text \<open>
  \<open>int(text)\<close> of a text field: blanks off both ends (\<open>int\<close> does not strip U+001C to
  U+001F), an optional sign, decimal digits with single underscores between them.
\<close>

fun split_on :: "char \<Rightarrow> string \<Rightarrow> string list" where
  "split_on c [] = [[]]"
| "split_on c (x # xs) =
     (if x = c then [] # split_on c xs
      else (case split_on c xs of [] \<Rightarrow> [[x]] | g # gs \<Rightarrow> (x # g) # gs))"

definition int_space :: "char \<Rightarrow> bool" where
  "int_space c = ((9 \<le> cp c \<and> cp c \<le> 13) \<or> cp c = 32 \<or> cp c = 0x85 \<or> cp c = 0xA0)"

definition int_text :: "string \<Rightarrow> py_error + int" where
  "int_text s =
     (let t = rev (dropWhile int_space (rev (dropWhile int_space s)));
          neg = (t \<noteq> [] \<and> hd t = CHR ''-'');
          body = (if t \<noteq> [] \<and> (hd t = CHR ''-'' \<or> hd t = CHR ''+'') then tl t else t)
      in if list_all (\<lambda>g. g \<noteq> [] \<and> list_all re_digit g) (split_on CHR ''_'' body)
         then Inr ((if neg then -1 else 1) * digits_value (filter (\<lambda>c. c \<noteq> CHR ''_'') body))
         else Inl ValueError)"

text \<open>\<open>f"S{n:02}"\<close>\<close>

definition season_folder :: "int \<Rightarrow> string" where
  "season_folder n =
     ''S'' @ (if n < 0 then CHR ''-'' # zfill 1 (str_nat (nat (- n))) else zfill 2 (str_nat (nat n)))"

text \<open>\<open>[sS](\d{1,2})\<close>\<close>

definition re_season_marker :: re where
  "re_season_marker = seqs [one_of ''sS'', Grp 1 (digits 1 (Some 2))]"

text \<open>
  The destination of one entry and the directory made for it. An exception here (the
  season field is not a number, the directory cannot be made) leaves the entry out.
\<close>

definition target_of :: "settings \<Rightarrow> fs \<Rightarrow> entry \<Rightarrow> py_error + fs \<times> string" where
  "target_of cfg s x =
     (case x of (oldabs, newabs, oldname, newname) \<Rightarrow>
        if var_move_season_folder cfg then
          bind_r (case re_search re_season_marker newname of
                    Some season_match \<Rightarrow> Inr (group_int season_match 1)
                  | None \<Rightarrow> if var_season cfg = [] then Inr 1 else int_text (var_season cfg))
            (\<lambda>season_to_use.
               let target_dir = join (dirname oldabs) (season_folder season_to_use)
               in bind_r (if \<not> path_exists s target_dir then makedirs s target_dir else Inr s)
                    (\<lambda>s'. Inr (s', join target_dir newname)))
        else
          (let target_dir = dirname newabs
           in bind_r (if \<not> path_exists s target_dir then makedirs s target_dir else Inr s)
                (\<lambda>s'. Inr (s', newabs))))"

text \<open>
  The loop that looks for a free name: \<open>base + suffix + ext\<close>, then with 1, 2, ... after
  the suffix. The candidates differ from each other, so the loop ends within as many
  rounds as the file system has paths; \<open>None\<close> stands for a loop that has not ended by then.
\<close>

fun next_free :: "fs \<Rightarrow> string \<Rightarrow> string \<Rightarrow> string \<Rightarrow> nat \<Rightarrow> nat \<Rightarrow> string option" where
  "next_free s base suffix ext 0 i = None"
| "next_free s base suffix ext (Suc fuel) i =
     (let t = base @ suffix @ str_nat i @ ext
      in if path_exists s t then next_free s base suffix ext fuel (Suc i) else Some t)"

definition free_target :: "settings \<Rightarrow> fs \<Rightarrow> string \<Rightarrow> string option" where
  "free_target cfg s target =
     (if path_exists s target then
        (let base = fst (splitext target); ext = snd (splitext target);
             t = base @ var_conflict_suffix cfg @ ext
         in if path_exists s t
            then next_free s base (var_conflict_suffix cfg) ext (Suc (length (fs_files s) + length (fs_dirs s))) 1
            else Some t)
      else Some target)"

text \<open>One round of the loop: the file system after it and the log row, if the move was made.\<close>

definition execute_entry :: "settings \<Rightarrow> fs \<Rightarrow> entry \<Rightarrow> fs \<times> (string \<times> string) option" where
  "execute_entry cfg s x =
     (case target_of cfg s x of
        Inl e \<Rightarrow> (s, None)
      | Inr (s1, target) \<Rightarrow>
          (case free_target cfg s1 target of
             None \<Rightarrow> (s1, None)
           | Some t \<Rightarrow>
               (case move s1 (fst x) t of
                  Inl e \<Rightarrow> (s1, None)
                | Inr s2 \<Rightarrow> (s2, Some (fst x, t)))))"

text \<open>The whole pass: the file system after it and the rows of the operation log.\<close>

fun execute_task :: "settings \<Rightarrow> fs \<Rightarrow> entry list \<Rightarrow> fs \<times> (string \<times> string) list" where
  "execute_task cfg s [] = (s, [])"
| "execute_task cfg s (x # xs) =
     (case execute_entry cfg s x of
        (s1, None) \<Rightarrow> execute_task cfg s1 xs
      | (s1, Some row) \<Rightarrow> (case execute_task cfg s1 xs of (s2, log_rows) \<Rightarrow> (s2, row # log_rows)))"

section \<open>_undo_task\<close>

text \<open>
  The log is written and read back by module \<open>csv\<close>; a row of the log read back is the
  list of its two fields. \<open>os.path.abspath\<close> depends on the working directory and is a
  parameter.
\<close>

definition log_rows_csv :: "(string \<times> string) list \<Rightarrow> string list list" where
  "log_rows_csv log_rows = map (\<lambda>(old, new). [old, new]) log_rows"

definition isabs :: "string \<Rightarrow> bool" where
  "isabs p = startswith p ''/''"

definition undo_source :: "(string \<Rightarrow> string) \<Rightarrow> fs \<Rightarrow> string \<Rightarrow> string option \<Rightarrow> string option" where
  "undo_source abspath s old new =
     (let truthy = (\<lambda>n. case n of None \<Rightarrow> False | Some t \<Rightarrow> t \<noteq> []);
          source = (if truthy new \<and> path_exists s (the new) then new
                    else if old \<noteq> [] \<and> path_exists s old then Some old else None)
      in case source of
           Some src \<Rightarrow> Some src
         | None \<Rightarrow>
             if truthy new \<and> path_exists s (abspath (the new)) then Some (abspath (the new))
             else if old \<noteq> [] \<and> path_exists s (abspath old) then Some (abspath old)
             else None)"

text \<open>
  One row. The result is the file system, the row of the rollback log if a move was made,
  and whether the pass goes on: \<open>os.makedirs\<close> stands outside the inner \<open>try\<close>, so its
  exception ends the whole pass.
\<close>

definition undo_row ::
  "(string \<Rightarrow> string) \<Rightarrow> fs \<Rightarrow> string list \<Rightarrow> py_error + fs \<times> (string \<times> string) option" where
  "undo_row abspath s r =
     (if r = [] then Inr (s, None)
      else
        (let old = hd r;
             new = (if length r > 1 then Some (r ! 1) else None)
         in case undo_source abspath s old new of
              None \<Rightarrow> Inr (s, None)
            | Some source \<Rightarrow>
                (let target = (if isabs old then old else abspath old);
                     tdir = dirname target
                 in bind_r (if \<not> path_exists s tdir then makedirs s tdir else Inr s)
                      (\<lambda>s1. case move s1 source target of
                               Inl e \<Rightarrow> Inr (s1, None)
                             | Inr s2 \<Rightarrow> Inr (s2, Some (source, target))))))"

text \<open>The whole pass: the file system after it, the rows moved, and the exception, if
  one ended the pass.\<close>

fun undo_task ::
  "(string \<Rightarrow> string) \<Rightarrow> fs \<Rightarrow> string list list \<Rightarrow> fs \<times> (string \<times> string) list \<times> py_error option" where
  "undo_task abspath s [] = (s, [], None)"
| "undo_task abspath s (r # rs) =
     (case undo_row abspath s r of
        Inl e \<Rightarrow> (s, [], Some e)
      | Inr (s1, moved) \<Rightarrow>
          (case undo_task abspath s1 rs of
             (s2, rows_out, err) \<Rightarrow>
               (s2, (case moved of None \<Rightarrow> rows_out | Some row \<Rightarrow> row # rows_out), err)))"

text \<open>
  What \<open>str.format\<close> gives for the default template
  \<open>{title}.S{season:02}E{episode:03}.{ext}\<close> when season and episode are not negative:
  the title, \<open>.S\<close>, the season on at least two digits, \<open>E\<close>, the episode on at least
  three digits, a dot and the extension. It stands for \<open>str.format\<close> in the two worked
  passes below, which use this template only; on any other input it says nothing about
  \<open>str.format\<close>.
\<close>

definition default_template :: string where
  "default_template = ''{title}.S{season:02}E{episode:03}.{ext}''"

definition default_format :: formatter where
  "default_format template c =
     (if template = default_template \<and> 0 \<le> c_season c \<and> 0 \<le> c_episode c
      then Inr (c_title c @ ''.S'' @ zfill 2 (str_int (c_season c)) @ ''E''
                @ zfill 3 (str_int (c_episode c)) @ ''.'' @ c_ext c)
      else Inl ValueError)"

definition two_episodes :: fs where
  "two_episodes = \<lparr>fs_files = [(''/d/Show.S01E002.mkv'', ''second''), (''/d/Show.S01E003.mkv'', ''third'')],
                   fs_dirs = [''/d'']\<rparr>"

definition shift_back :: settings where
  "shift_back = \<lparr>var_template = default_template, var_title = ''Show'', var_season = ''1'',
                  var_pad = Inr 3, var_offset = Inr (-1), var_sort_method = ''name'',
                  var_include_episode_title = True, var_move_season_folder = False,
                  var_conflict_suffix = ''_dup''\<rparr>"

section \<open>Properties of natural_key\<close>

lemma pre_not_isdigit_ok:
  "key_part (takeWhile (\<lambda>c. \<not> re_digit c) s) = Inr k \<Longrightarrow> \<exists>t. k = KStr t"
proof -
  let ?p = "takeWhile (\<lambda>c. \<not> re_digit c) s"
  assume a: "key_part ?p = Inr k"
  show ?thesis
  proof (cases "isdigit ?p")
    case True
    then obtain c cs where pc: "?p = c # cs" by (cases ?p) (auto simp: isdigit_def)
    have "c \<in> set ?p" using pc by simp
    then have "\<not> re_digit c" by (metis (mono_tags, lifting) set_takeWhileD)
    then have "py_int ?p = Inl ValueError" using pc by (simp add: py_int_def)
    with a True show ?thesis by (simp add: key_part_def)
  next
    case False
    with a show ?thesis by (auto simp: key_part_def)
  qed
qed

lemma digit_run_key:
  assumes "rest \<noteq> []" "re_digit (hd rest)"
  shows "\<exists>n. key_part (takeWhile re_digit rest) = Inr (KInt n)"
proof -
  let ?d = "takeWhile re_digit rest"
  from assms obtain c cs where rc: "rest = c # cs" and dc: "re_digit c" by (cases rest) auto
  have ne: "?d \<noteq> []" using rc dc by simp
  have all: "list_all re_digit ?d" by (simp add: list_all_iff) (metis set_takeWhileD)
  then have "list_all chr_isdigit ?d" by (simp add: list_all_iff chr_isdigit_def)
  with ne have "isdigit ?d" by (simp add: isdigit_def)
  moreover have "py_int ?d = Inr (digits_value ?d)" using ne all by (simp add: py_int_def)
  ultimately show ?thesis by (simp add: key_part_def)
qed

lemma key_parts_split_alternates:
  "key_parts (split_digits s) = Inr k \<Longrightarrow> k \<noteq> [] \<and> alternates True k"
proof (induction s arbitrary: k rule: split_digits.induct)
  case (1 s)
  let ?pre = "takeWhile (\<lambda>c. \<not> re_digit c) s"
  let ?rest = "dropWhile (\<lambda>c. \<not> re_digit c) s"
  show ?case
  proof (cases "?rest = []")
    case True
    then have sp: "split_digits s = [?pre]" by (subst split_digits.simps) (simp add: Let_def)
    with "1.prems" obtain k0 where k0: "key_part ?pre = Inr k0" "k = [k0]"
      by (auto split: sum.splits)
    from pre_not_isdigit_ok [OF k0(1)] k0(2) show ?thesis by auto
  next
    case False
    then have sp: "split_digits s = ?pre # takeWhile re_digit ?rest # split_digits (dropWhile re_digit ?rest)"
      by (subst split_digits.simps) (simp add: Let_def)
    from hd_dropWhile [OF False] have hd: "re_digit (hd ?rest)" by simp
    from digit_run_key [OF False hd] obtain n where n: "key_part (takeWhile re_digit ?rest) = Inr (KInt n)" by blast
    from "1.prems" sp n obtain k0 ks where
      k0: "key_part ?pre = Inr k0" and ks: "key_parts (split_digits (dropWhile re_digit ?rest)) = Inr ks"
      and k: "k = k0 # KInt n # ks"
      by (auto split: sum.splits)
    from "1.IH" [OF refl refl False ks] have "ks \<noteq> [] \<and> alternates True ks" .
    moreover from pre_not_isdigit_ok [OF k0] obtain t where "k0 = KStr t" by blast
    ultimately show ?thesis using k by simp
  qed
qed

lemma key_lt_alternates:
  "alternates b k1 \<Longrightarrow> alternates b k2 \<Longrightarrow> \<exists>r. key_lt k1 k2 = Inr r"
proof (induction k1 k2 arbitrary: b rule: key_lt.induct)
  case (4 x xs y ys)
  show ?case
  proof (cases "x = y")
    case True
    with 4 show ?thesis by (cases x) auto
  next
    case False
    with "4.prems" show ?thesis by (cases x; cases y) auto
  qed
qed auto

lemma natural_key_alternates:
  "natural_key s = Inr k \<Longrightarrow> k \<noteq> [] \<and> alternates True k"
  unfolding natural_key_def by (rule key_parts_split_alternates)

lemma natural_keys_comparable:
  "natural_key s = Inr k1 \<Longrightarrow> natural_key t = Inr k2 \<Longrightarrow> \<exists>r. key_lt k1 k2 = Inr r"
  using natural_key_alternates key_lt_alternates by blast

lemma natural_key_ep2_before_ep10:
  "natural_key ''ep2'' = Inr [KStr ''ep'', KInt 2, KStr []]
   \<and> natural_key ''ep10'' = Inr [KStr ''ep'', KInt 10, KStr []]
   \<and> key_lt [KStr ''ep'', KInt 2, KStr []] [KStr ''ep'', KInt 10, KStr []] = Inr True"
  by code_simp

lemma natural_sort_example:
  "py_sorted key_lt natural_key [''ep2.mkv'', ''ep10.mkv'', ''ep1.mkv'']
     = Inr [''ep1.mkv'', ''ep2.mkv'', ''ep10.mkv'']"
  by code_simp

text \<open>
  Claim C10. natural_key is to give a key for every string, without error. It does not:
  on the file name made of SUPERSCRIPT TWO (U+00B2), \<open>1\<close> and \<open>.mkv\<close>,
  \<open>re.split\<close> gives the pieces U+00B2, \<open>1\<close>, \<open>.mkv\<close>; \<open>isdigit\<close> holds of the first
  piece, and \<open>int\<close> of it raises \<open>ValueError\<close>. The rest of the claim holds of every key
  that is returned (\<open>natural_key_alternates\<close>, \<open>natural_keys_comparable\<close>,
  \<open>natural_key_ep2_before_ep10\<close>, \<open>natural_sort_example\<close>).
\<close>

theorem natural_key_superscript_raises:
  "natural_key (CHR 0xB2 # ''1.mkv'') = Inl ValueError"
  by code_simp

section \<open>Properties of parse_episode_info\<close>

lemma STOP_TOKENS_lowered [code]:
  "STOP_TOKENS =
     [''2160p'', ''1080p'', ''720p'', ''480p'', ''web-dl'', ''web'', ''webrip'', ''web-dlrip'', ''web-dl2'',
      ''bluray'', ''brrip'', ''bdrip'', ''hdrip'', ''hdtv'', ''dvdrip'',
      ''x264'', ''x265'', ''h264'', ''h265'', ''hevc'', ''avc'', ''aac'', ''ddp'', ''ddp5.1'', ''dd+'', ''atmos'',
      ''hevc'', ''10bit'', ''8bit'', ''proper'', ''repack'', ''extended'', ''unrated'']"
  by code_simp

text \<open>
  Claim C5. For the file name \<open>Show.Name.2x05.Some.Title.1080p.WEB-DL.mkv\<close> the parser
  returns season 2, episode 5 and the trailing title \<open>Some.Title\<close>: the SxxEyy rule does
  not match the name, the season-x-episode rule does, and of the tokens after the match
  the two before \<open>1080p\<close> are kept.
\<close>

theorem parse_2x05_example:
  "parse_episode_info ''Show.Name.2x05.Some.Title.1080p.WEB-DL.mkv''
     = (Some 2, Some 5, Some ''Some.Title'')
   \<and> re_search re_sxxeyy ''Show.Name.2x05.Some.Title.1080p.WEB-DL'' = None
   \<and> keep_tokens [''Some'', ''Title'', ''1080p'', ''WEB'', ''DL''] = [''Some'', ''Title'']"
  by code_simp

section \<open>Properties of format_template\<close>

lemma format_fallback_absent:
  "format_fallback template title None None ext orig
     = format_fallback template title (Some 0) (Some 0) ext orig"
  by (simp add: format_fallback_def)

text \<open>
  Claim C8. For every template and every field set the formatter returns a string and
  raises nothing, whatever \<open>str.format\<close> does: an absent season or episode goes into the
  context as 0, and when \<open>str.format\<close> raises, the result is the template with the
  placeholders \<open>{title}\<close>, \<open>{ext}\<close>, \<open>{orig}\<close>, \<open>{season}\<close>, \<open>{episode}\<close>, \<open>{ep}\<close>
  replaced as plain substrings (a width directive is then left as it stands).
\<close>

theorem format_template_never_raises:
  "(\<exists>out. format_template fmt template title season episode ext orig = Inr out)
   \<and> format_template fmt template title None None ext orig
       = format_template fmt template title (Some 0) (Some 0) ext orig
   \<and> (fmt template \<lparr>c_title = title,
                      c_season = (case season of None \<Rightarrow> 0 | Some v \<Rightarrow> v),
                      c_episode = (case episode of None \<Rightarrow> 0 | Some v \<Rightarrow> v),
                      c_ep = (case episode of None \<Rightarrow> 0 | Some v \<Rightarrow> v),
                      c_ext = lstrip ''.'' ext, c_orig = orig\<rparr> = Inl err
        \<longrightarrow> format_template fmt template title season episode ext orig
            = Inr (format_fallback template title season episode ext orig))"
  by (auto simp: format_template_def Let_def format_fallback_absent split: sum.splits)

theorem format_template_never_raises_witness:
  "(\<lambda>t c. Inl KeyError :: py_error + string) ''{title}.E{episode:03}.{ep}.{ext}''
       \<lparr>c_title = ''Show'', c_season = 0, c_episode = 0, c_ep = 0,
        c_ext = lstrip ''.'' ''.mkv'', c_orig = ''a.mkv''\<rparr> = Inl KeyError
   \<and> format_template (\<lambda>t c. Inl KeyError) ''{title}.E{episode:03}.{ep}.{ext}'' ''Show'' None None
         ''.mkv'' ''a.mkv'' = Inr ''Show.E{episode:03}.0.mkv''"
proof -
  have fb: "format_fallback ''{title}.E{episode:03}.{ep}.{ext}'' ''Show'' None None ''.mkv'' ''a.mkv''
              = ''Show.E{episode:03}.0.mkv''"
    by code_simp
  have "format_template (\<lambda>t c. Inl KeyError) ''{title}.E{episode:03}.{ep}.{ext}'' ''Show'' None None
          ''.mkv'' ''a.mkv''
        = Inr (format_fallback ''{title}.E{episode:03}.{ep}.{ext}'' ''Show'' None None ''.mkv'' ''a.mkv'')"
    using format_template_never_raises
      [of "\<lambda>t c. Inl KeyError" "''{title}.E{episode:03}.{ep}.{ext}''" "''Show''" None None
          "''.mkv''" "''a.mkv''" KeyError]
    by blast
  then show ?thesis by (simp add: fb)
qed

section \<open>Properties of _apply_padding_to_template\<close>

text \<open>
  Claim C6. With pad width 3, a rendered name whose episode marker carries 7 is to hold
  \<open>007\<close> in the segment the marker matches. The padding step finds the marker \<open>E7\<close> of
  \<open>Series.S07E7.mkv\<close> (template \<open>{title}.S{season:02}E{episode}.{ext}\<close>, season 7,
  episode 7) and then replaces the first \<open>7\<close> of the whole name, which belongs to the
  season: the episode stays \<open>E7\<close> and the season becomes \<open>S0007\<close>.
\<close>

theorem apply_padding_pads_first_occurrence:
  "apply_padding_to_template ''Series.S07E7.mkv'' 3 = ''Series.S0007E7.mkv''"
  by code_simp

section \<open>Properties of the conflict detection\<close>

lemma detect_conflicts_mem:
  "k \<in> fst (detect_conflicts xs (C, S)) \<longleftrightarrow>
     k \<in> C \<or> (k \<in> dom S \<and> count_list (map target_key xs) k \<noteq> 0)
       \<or> count_list (map target_key xs) k \<ge> 2"
proof (induction xs arbitrary: C S)
  case Nil
  show ?case by simp
next
  case (Cons x xs)
  define kx where "kx = target_key x"
  define n where "n = count_list (map target_key xs) k"
  have cnt: "count_list (map target_key (x # xs)) k = (if kx = k then Suc n else n)"
    by (simp add: kx_def n_def)
  show ?case
  proof (cases "kx \<in> dom S")
    case True
    then have eq: "detect_conflicts (x # xs) (C, S) = detect_conflicts xs (insert kx C, S)"
      by (simp add: kx_def)
    have "k \<in> fst (detect_conflicts (x # xs) (C, S))
            \<longleftrightarrow> k \<in> insert kx C \<or> (k \<in> dom S \<and> n \<noteq> 0) \<or> n \<ge> 2"
      unfolding eq n_def by (rule Cons.IH)
    also have "\<dots> \<longleftrightarrow> k \<in> C \<or> (k \<in> dom S \<and> (if kx = k then Suc n else n) \<noteq> 0)
                      \<or> (if kx = k then Suc n else n) \<ge> 2"
      using True by (cases "kx = k") auto
    finally show ?thesis unfolding cnt .
  next
    case False
    then have eq: "detect_conflicts (x # xs) (C, S) = detect_conflicts xs (C, S(kx \<mapsto> fst x))"
      by (simp add: kx_def)
    have "k \<in> fst (detect_conflicts (x # xs) (C, S))
            \<longleftrightarrow> k \<in> C \<or> (k \<in> dom (S(kx \<mapsto> fst x)) \<and> n \<noteq> 0) \<or> n \<ge> 2"
      unfolding eq n_def by (rule Cons.IH)
    also have "\<dots> \<longleftrightarrow> k \<in> C \<or> (k \<in> dom S \<and> (if kx = k then Suc n else n) \<noteq> 0)
                      \<or> (if kx = k then Suc n else n) \<ge> 2"
      using False by (cases "kx = k") auto
    finally show ?thesis unfolding cnt .
  qed
qed

lemma conflict_set_count:
  "k \<in> conflict_set es \<longleftrightarrow> count_list (map target_key es) k \<ge> 2"
  by (simp add: conflict_set_def detect_conflicts_mem)

lemma conflict_set_split:
  "target_key e \<in> conflict_set (xs @ e # ys) \<longleftrightarrow> (\<exists>e' \<in> set (xs @ ys). target_key e' = target_key e)"
proof -
  have "count_list (map target_key (xs @ e # ys)) (target_key e)
          = Suc (count_list (map target_key (xs @ ys)) (target_key e))"
    by simp
  then have "target_key e \<in> conflict_set (xs @ e # ys)
               \<longleftrightarrow> count_list (map target_key (xs @ ys)) (target_key e) \<noteq> 0"
    unfolding conflict_set_count by auto
  also have "\<dots> \<longleftrightarrow> target_key e \<in> set (map target_key (xs @ ys))"
    by (simp add: count_list_0_iff)
  also have "\<dots> \<longleftrightarrow> (\<exists>e' \<in> set (xs @ ys). target_key e' = target_key e)"
    unfolding set_map image_iff by (rule bex_cong) auto
  finally show ?thesis .
qed

text \<open>
  Claim C7. In a preview list, an entry is tagged \<open>conflict\<close> if and only if another entry
  of the list has the same containing directory and a target name equal to its own after
  lower-casing; the condition is symmetric, so both members of a colliding pair are tagged,
  the first one met included. An entry is tagged \<open>unchanged\<close> if and only if its original
  name equals its target name exactly and it is not tagged \<open>conflict\<close>.
\<close>

theorem conflict_and_unchanged_tags:
  "(tag_of (xs @ (oldabs, newabs, oldname, newname) # ys) (oldabs, newabs, oldname, newname) = ''conflict''
      \<longleftrightarrow> (\<exists>(oldabs', newabs', oldname', newname') \<in> set (xs @ ys).
             dirname oldabs' = dirname oldabs \<and> lower newname' = lower newname))
   \<and> (tag_of (xs @ (oldabs, newabs, oldname, newname) # ys) (oldabs, newabs, oldname, newname) = ''unchanged''
      \<longleftrightarrow> oldname = newname
          \<and> tag_of (xs @ (oldabs, newabs, oldname, newname) # ys) (oldabs, newabs, oldname, newname)
              \<noteq> ''conflict'')"
proof -
  let ?e = "(oldabs, newabs, oldname, newname)"
  have c: "target_key ?e \<in> conflict_set (xs @ ?e # ys)
        \<longleftrightarrow> (\<exists>(oldabs', newabs', oldname', newname') \<in> set (xs @ ys).
             dirname oldabs' = dirname oldabs \<and> lower newname' = lower newname)"
    unfolding conflict_set_split by (force simp: target_key_def)
  show ?thesis using c by (simp add: tag_of_def)
qed

theorem conflict_and_unchanged_tags_witness:
  "tag_of [(''/d/a.mkv'', ''/d/Show.S01E01.mkv'', ''a.mkv'', ''Show.S01E01.mkv''),
           (''/d/b.mkv'', ''/d/show.s01e01.mkv'', ''b.mkv'', ''show.s01e01.mkv'')]
          (''/d/a.mkv'', ''/d/Show.S01E01.mkv'', ''a.mkv'', ''Show.S01E01.mkv'') = ''conflict''
   \<and> tag_of [(''/d/a.mkv'', ''/d/Show.S01E01.mkv'', ''a.mkv'', ''Show.S01E01.mkv''),
             (''/d/b.mkv'', ''/d/show.s01e01.mkv'', ''b.mkv'', ''show.s01e01.mkv'')]
            (''/d/b.mkv'', ''/d/show.s01e01.mkv'', ''b.mkv'', ''show.s01e01.mkv'') = ''conflict''"
proof -
  have d: "dirname ''/d/a.mkv'' = dirname ''/d/b.mkv''" by code_simp
  have l: "lower ''Show.S01E01.mkv'' = lower ''show.s01e01.mkv''" by code_simp
  show ?thesis
    using conflict_and_unchanged_tags
            [of "[]" "''/d/a.mkv''" "''/d/Show.S01E01.mkv''" "''a.mkv''" "''Show.S01E01.mkv''"
                "[(''/d/b.mkv'', ''/d/show.s01e01.mkv'', ''b.mkv'', ''show.s01e01.mkv'')]"]
          conflict_and_unchanged_tags
            [of "[(''/d/a.mkv'', ''/d/Show.S01E01.mkv'', ''a.mkv'', ''Show.S01E01.mkv'')]"
                "''/d/b.mkv''" "''/d/show.s01e01.mkv''" "''b.mkv''" "''show.s01e01.mkv''" "[]"]
          d l
    by simp
qed

section \<open>Properties of the preview list\<close>

lemma mset_insort_by: "mset (insort_by lt x ys) = add_mset x (mset ys)"
  by (induction ys) auto

lemma mset_sort_by: "mset (sort_by lt xs) = mset xs"
  unfolding sort_by_def by (induction xs) (auto simp: mset_insort_by)

lemma length_sort_by: "length (sort_by lt xs) = length xs"
  using mset_sort_by [of lt xs] by (metis size_mset)

lemma set_sort_by: "set (sort_by lt xs) = set xs"
  using mset_sort_by [of lt xs] by (metis set_mset_mset)

lemma all_keys_ok:
  "\<forall>x \<in> set xs. \<exists>k. key x = Inr k \<Longrightarrow> \<exists>ks. all_keys key xs = Inr ks \<and> map snd ks = xs"
  by (induction xs) auto

lemma all_keys_Inr:
  "all_keys key xs = Inr ks \<Longrightarrow> map snd ks = xs \<and> (\<forall>x \<in> set xs. \<exists>k. key x = Inr k)"
  by (induction xs arbitrary: ks) (auto split: sum.splits)

lemma py_sorted_ok:
  assumes "\<forall>x \<in> set xs. \<exists>k. key x = Inr k"
  shows "\<exists>ys. py_sorted lt key xs = Inr ys \<and> mset ys = mset xs"
proof -
  from all_keys_ok [OF assms] obtain ks where ks: "all_keys key xs = Inr ks" "map snd ks = xs"
    by blast
  have "mset (map snd (sort_by (\<lambda>a b. lt (fst a) (fst b) = Inr True) ks)) = mset (map snd ks)"
    by (simp add: mset_sort_by)
  with ks show ?thesis by (simp add: py_sorted_def)
qed

lemma py_sorted_Inr:
  assumes "py_sorted lt key xs = Inr ys"
  shows "mset ys = mset xs \<and> (\<forall>x \<in> set xs. \<exists>k. key x = Inr k)"
proof -
  from assms obtain ks where ks: "all_keys key xs = Inr ks"
    and ys: "ys = map snd (sort_by (\<lambda>a b. lt (fst a) (fst b) = Inr True) ks)"
    by (auto simp: py_sorted_def split: sum.splits)
  from all_keys_Inr [OF ks] have m: "map snd ks = xs" and k: "\<forall>x \<in> set xs. \<exists>k. key x = Inr k"
    by blast+
  have "mset ys = mset (map snd ks)" unfolding ys by (simp add: mset_sort_by)
  with m k show ?thesis by simp
qed

lemma guess_key_ok:
  "natural_key (basename p) = Inr k \<Longrightarrow> \<exists>g. guess_key p = Inr g"
  by (auto simp: guess_key_def bind_r_def split: prod.splits option.splits)

lemma sort_files_ok:
  assumes "\<forall>p \<in> set files. \<exists>k. natural_key (basename p) = Inr k"
  shows "\<exists>fs. sort_files method files = Inr fs \<and> mset fs = mset files"
proof -
  have g: "\<forall>p \<in> set files. \<exists>g. guess_key p = Inr g"
    using assms guess_key_ok by blast
  show ?thesis
    unfolding sort_files_def
    using py_sorted_ok [OF assms, of key_lt] py_sorted_ok [OF g, of guess_lt]
    by auto
qed

lemma map_r_ok:
  "\<forall>x \<in> set xs. \<exists>y. f x = Inr y \<and> g y = h x
     \<Longrightarrow> \<exists>ys. map_r f xs = Inr ys \<and> map g ys = map h xs"
  by (induction xs) auto

lemma format_template_Inr:
  "\<exists>out. format_template fmt template title season episode ext orig = Inr out"
  by (auto simp: format_template_def Let_def split: sum.splits)

lemma render_ok: "\<exists>e. render fmt cfg pad x = Inr e \<and> fst e = fst x"
proof -
  obtain p s ep ex where x: "x = (p, s, ep, ex)" by (cases x) auto
  obtain out where
    "format_template fmt (var_template cfg) (title_of cfg) (Some s) (Some ep) (snd (splitext p)) (basename p)
       = Inr out"
    using format_template_Inr by blast
  then show ?thesis by (simp add: render_def x bind_r_def Let_def)
qed

lemma enumerate_snd: "map snd (enumerate n xs) = xs"
  by (simp add: enumerate_def)

lemma length_enumerate: "length (enumerate n xs) = length xs"
  by (simp add: enumerate_def)

lemma trust_numbers_files: "map fst (trust_numbers sv k ps) = map fst ps"
proof -
  have "map fst (trust_numbers sv k ps) = map (fst \<circ> snd) (enumerate 0 ps)"
    by (auto simp: trust_numbers_def)
  also have "\<dots> = map fst (map snd (enumerate 0 ps))" by simp
  finally show ?thesis by (simp only: enumerate_snd)
qed

lemma sequential_numbers_files: "map fst (sequential_numbers sv k ps) = map fst ps"
proof -
  have "map fst (sequential_numbers sv k ps) = map (fst \<circ> snd) (enumerate 1 ps)"
    by (auto simp: sequential_numbers_def)
  also have "\<dots> = map fst (map snd (enumerate 1 ps))" by simp
  finally show ?thesis by (simp only: enumerate_snd)
qed

lemma pure_numbers_files: "mset (map fst (pure_numbers sv k ps)) = mset (map fst ps)"
proof -
  let ?fs = "map fst ps"
  let ?pure = "filter is_pure_numeric ?fs"
  have a: "map fst (map (\<lambda>(idx, p). (p, (case sv of Some v \<Rightarrow> v | None \<Rightarrow> 1), idx + k, None :: string option))
                     (enumerate 1 (sort_by (\<lambda>a b. stem_int a < stem_int b) ?pure)))
             = sort_by (\<lambda>a b. stem_int a < stem_int b) ?pure"
  proof -
    have "map fst (map (\<lambda>(idx, p). (p, (case sv of Some v \<Rightarrow> v | None \<Rightarrow> 1), idx + k, None :: string option))
                     (enumerate 1 (sort_by (\<lambda>a b. stem_int a < stem_int b) ?pure)))
            = map snd (enumerate 1 (sort_by (\<lambda>a b. stem_int a < stem_int b) ?pure))"
      by auto
    then show ?thesis by (simp only: enumerate_snd)
  qed
  have b: "filter (\<lambda>p. p \<notin> set ?pure) ?fs = filter (\<lambda>p. \<not> is_pure_numeric p) ?fs"
    by (rule filter_cong) auto
  have "mset (map fst (pure_numbers sv k ps))
          = mset (sort_by (\<lambda>a b. stem_int a < stem_int b) ?pure) + mset (filter (\<lambda>p. p \<notin> set ?pure) ?fs)"
    unfolding pure_numbers_def pure_numeric_files_def Let_def map_append mset_append a
    by (simp add: comp_def)
  also have "\<dots> = mset ?pure + mset (filter (\<lambda>p. \<not> is_pure_numeric p) ?fs)"
    by (simp only: mset_sort_by b)
  also have "\<dots> = mset ?fs" by (induction ps) auto
  finally show ?thesis .
qed

lemma trust_key_ok:
  "natural_key (basename (fst x)) = Inr k \<Longrightarrow> \<exists>t. trust_key x = Inr t"
  by (cases x) (auto simp: trust_key_def bind_r_def)

lemma numbering_ok:
  assumes "\<forall>p \<in> set (map fst ps). \<exists>k. natural_key (basename p) = Inr k"
  shows "\<exists>nums. numbering sv k ps = Inr nums \<and> mset (map fst nums) = mset (map fst ps)"
proof (cases "select_strategy ps")
  case TrustParsed
  have "\<forall>x \<in> set ps. \<exists>t. trust_key x = Inr t"
    using assms trust_key_ok by fastforce
  from py_sorted_ok [OF this, of trust_lt] obtain ys where
    ys: "py_sorted trust_lt trust_key ps = Inr ys" "mset ys = mset ps" by blast
  have "mset (map fst (trust_numbers sv k ys)) = mset (map fst ps)"
    unfolding trust_numbers_files using ys(2) by (metis mset_map)
  with ys(1) TrustParsed show ?thesis by (simp add: numbering_def bind_r_def)
next
  case PureNumeric
  then show ?thesis using pure_numbers_files [of sv k ps] by (simp add: numbering_def)
next
  case SequentialFallback
  have "mset (map fst (sequential_numbers sv k ps)) = mset (map fst ps)"
    by (simp only: sequential_numbers_files)
  with SequentialFallback show ?thesis by (simp add: numbering_def)
qed

text \<open>
  What holds when the pass returns: for a file list that \<open>_scan_task\<close> produced and pad,
  offset and season fields that can be read, the source paths of the entries are the
  scanned files, each as often as it was scanned, and each of the three numbering
  branches numbers every file it is given once.
\<close>

lemma preview_returns_one_entry_per_file:
  assumes "scan_sorted found = Inr file_list"
    and "var_pad cfg = Inr pad" and "var_offset cfg = Inr offset" and "season_val cfg = Inr sv"
  shows "(\<exists>es. preview fmt cfg file_list = Inr es \<and> length es = length file_list
              \<and> mset (map fst es) = mset file_list)
         \<and> length (trust_numbers sv k ps) = length ps
         \<and> length (pure_numbers sv k ps) = length ps
         \<and> length (sequential_numbers sv k ps) = length ps"
proof -
  have branches: "length (trust_numbers sv k ps) = length ps
         \<and> length (pure_numbers sv k ps) = length ps
         \<and> length (sequential_numbers sv k ps) = length ps"
    using trust_numbers_files [of sv k ps] sequential_numbers_files [of sv k ps]
          pure_numbers_files [of sv k ps]
    by (metis length_map size_mset)
  have "\<exists>es. preview fmt cfg file_list = Inr es \<and> length es = length file_list
              \<and> mset (map fst es) = mset file_list"
  proof (cases "file_list = []")
  case True
  then show ?thesis by (simp add: preview_def)
next
  case False
  from py_sorted_Inr [OF assms(1) [unfolded scan_sorted_def]]
  have fl: "mset file_list = mset found"
    and keys: "\<forall>p \<in> set found. \<exists>k. natural_key (basename p) = Inr k" by blast+
  from fl have "set file_list = set found" by (metis set_mset_mset)
  with keys have k1: "\<forall>p \<in> set file_list. \<exists>k. natural_key (basename p) = Inr k" by simp
  from sort_files_ok [OF k1] obtain files where
    files: "sort_files (var_sort_method cfg) file_list = Inr files" "mset files = mset file_list"
    by blast
  have fp: "map fst (parse_files files) = files" by (simp add: parse_files_def comp_def)
  from files(2) have "set files = set file_list" by (metis set_mset_mset)
  with k1 fp have "\<forall>p \<in> set (map fst (parse_files files)). \<exists>k. natural_key (basename p) = Inr k"
    by simp
  from numbering_ok [OF this] obtain nums where
    nums: "numbering sv offset (parse_files files) = Inr nums"
          "mset (map fst nums) = mset (map fst (parse_files files))" by blast
  have "\<forall>x \<in> set nums. \<exists>y. render fmt cfg pad x = Inr y \<and> fst y = fst x"
    using render_ok by blast
  from map_r_ok [OF this] obtain es where
    es: "map_r (render fmt cfg pad) nums = Inr es" "map fst es = map fst nums" by blast
  have p: "preview fmt cfg file_list = Inr es"
    using False files(1) assms(2) assms(3) assms(4) nums(1) es(1)
    by (simp add: preview_def bind_r_def)
  have m: "mset (map fst es) = mset file_list"
    using es(2) nums(2) fp files(2) by simp
  then have "length (map fst es) = length file_list" by (metis size_mset)
  with p m show ?thesis by simp
qed
  with branches show ?thesis by blast
qed

text \<open>
  Claim C9. One preview pass is to leave a preview list with exactly one entry per scanned
  file. It does not when the season field holds SUPERSCRIPT TWO (U+00B2): the scanned list
  \<open>/d/a.mkv\<close>, \<open>/d/b.mkv\<close> has two files, \<open>isdigit\<close> holds of the field, \<open>int\<close> of it raises
  \<open>ValueError\<close> after the preview list was cleared, and the list stays empty. The same
  happens with \<open>TclError\<close> when the pad field cannot be read.
\<close>

theorem preview_raises_after_clearing:
  "scan_sorted [''/d/b.mkv'', ''/d/a.mkv''] = Inr [''/d/a.mkv'', ''/d/b.mkv'']
   \<and> preview default_format
         \<lparr>var_template = default_template, var_title = ''Show'', var_season = [char_of (0xB2::nat)],
          var_pad = Inr 3, var_offset = Inr 0, var_sort_method = ''name'',
          var_include_episode_title = True, var_move_season_folder = False,
          var_conflict_suffix = ''_dup''\<rparr>
         [''/d/a.mkv'', ''/d/b.mkv''] = Inl ValueError
   \<and> preview_list_after default_format
         \<lparr>var_template = default_template, var_title = ''Show'', var_season = [char_of (0xB2::nat)],
          var_pad = Inr 3, var_offset = Inr 0, var_sort_method = ''name'',
          var_include_episode_title = True, var_move_season_folder = False,
          var_conflict_suffix = ''_dup''\<rparr>
         [''/d/a.mkv'', ''/d/b.mkv''] = []
   \<and> preview_list_after default_format
         \<lparr>var_template = default_template, var_title = ''Show'', var_season = ''1'',
          var_pad = Inl TclError, var_offset = Inr 0, var_sort_method = ''name'',
          var_include_episode_title = True, var_move_season_folder = False,
          var_conflict_suffix = ''_dup''\<rparr>
         [''/d/a.mkv'', ''/d/b.mkv''] = []"
  by code_simp

section \<open>Properties of the numbering\<close>























text \<open>
  Claim C2, as stated, fails: in \<open>nine_files\<close> exactly one name carries an SxxEyy marker and
  none is pure-numeric, yet eight more names yield an episode number through the
  free-standing-number rule, so nine parse and the trust-parsed-numbers branch is taken.
\<close>

theorem nine_files_one_marker_trusts_parsed:
  "length nine_files = 9 \<and> length (filter carries_sxxeyy nine_files) = 1
   \<and> filter is_pure_numeric nine_files = []
   \<and> sort_files ''name'' nine_files = Inr nine_files
   \<and> select_strategy (parse_files nine_files) = TrustParsed
   \<and> select_strategy (parse_files nine_files) \<noteq> SequentialFallback"
  by code_simp

text \<open>
  Claim C2, amended. The trust-parsed-numbers branch is taken if and only if the number of
  files with a parsed episode is at least max(2, floor(n/3)) for a batch of n files. A
  batch of 9 of which 4 parse to an episode number takes it; a batch of 9 of which only 1
  parses to an episode number, by whichever rule, and none is pure-numeric takes the
  sequential-fallback branch.
\<close>

theorem strategy_selection:
  "(select_strategy parsed = TrustParsed
      \<longleftrightarrow> length (parsed_es parsed) \<ge> max 2 (length parsed div 3))
   \<and> (length parsed = 9 \<and> length (parsed_es parsed) = 4 \<longrightarrow> select_strategy parsed = TrustParsed)
   \<and> (length parsed = 9 \<and> length (parsed_es parsed) = 1 \<and> pure_numeric_files parsed = []
        \<longrightarrow> select_strategy parsed = SequentialFallback)"
  by (auto simp: select_strategy_def use_parsed_numbers_def threshold_def)

theorem strategy_selection_witness:
  "length (parse_files [''/d/S1E1.mkv'', ''/d/S1E2.mkv'', ''/d/S1E3.mkv'', ''/d/S1E4.mkv'', ''/d/a.mkv'',
        ''/d/b.mkv'', ''/d/c.mkv'', ''/d/d.mkv'', ''/d/e.mkv'']) = 9
   \<and> length (parsed_es (parse_files [''/d/S1E1.mkv'', ''/d/S1E2.mkv'', ''/d/S1E3.mkv'', ''/d/S1E4.mkv'', ''/d/a.mkv'',
        ''/d/b.mkv'', ''/d/c.mkv'', ''/d/d.mkv'', ''/d/e.mkv''])) = 4
   \<and> select_strategy (parse_files [''/d/S1E1.mkv'', ''/d/S1E2.mkv'', ''/d/S1E3.mkv'', ''/d/S1E4.mkv'', ''/d/a.mkv'',
        ''/d/b.mkv'', ''/d/c.mkv'', ''/d/d.mkv'', ''/d/e.mkv'']) = TrustParsed
   \<and> length (parse_files [''/d/S1E1.mkv'', ''/d/a.mkv'', ''/d/b.mkv'', ''/d/c.mkv'', ''/d/d.mkv'',
        ''/d/e.mkv'', ''/d/f.mkv'', ''/d/g.mkv'', ''/d/h.mkv'']) = 9
   \<and> length (parsed_es (parse_files [''/d/S1E1.mkv'', ''/d/a.mkv'', ''/d/b.mkv'', ''/d/c.mkv'', ''/d/d.mkv'',
        ''/d/e.mkv'', ''/d/f.mkv'', ''/d/g.mkv'', ''/d/h.mkv''])) = 1
   \<and> pure_numeric_files (parse_files [''/d/S1E1.mkv'', ''/d/a.mkv'', ''/d/b.mkv'', ''/d/c.mkv'', ''/d/d.mkv'',
        ''/d/e.mkv'', ''/d/f.mkv'', ''/d/g.mkv'', ''/d/h.mkv'']) = []
   \<and> select_strategy (parse_files [''/d/S1E1.mkv'', ''/d/a.mkv'', ''/d/b.mkv'', ''/d/c.mkv'', ''/d/d.mkv'',
        ''/d/e.mkv'', ''/d/f.mkv'', ''/d/g.mkv'', ''/d/h.mkv'']) = SequentialFallback"
proof -
  have a: "length (parse_files [''/d/S1E1.mkv'', ''/d/S1E2.mkv'', ''/d/S1E3.mkv'', ''/d/S1E4.mkv'', ''/d/a.mkv'',
        ''/d/b.mkv'', ''/d/c.mkv'', ''/d/d.mkv'', ''/d/e.mkv'']) = 9"
    by (simp add: parse_files_def)
  have b: "length (parsed_es (parse_files [''/d/S1E1.mkv'', ''/d/S1E2.mkv'', ''/d/S1E3.mkv'', ''/d/S1E4.mkv'', ''/d/a.mkv'',
        ''/d/b.mkv'', ''/d/c.mkv'', ''/d/d.mkv'', ''/d/e.mkv''])) = 4"
    by code_simp
  have c: "length (parse_files [''/d/S1E1.mkv'', ''/d/a.mkv'', ''/d/b.mkv'', ''/d/c.mkv'', ''/d/d.mkv'',
        ''/d/e.mkv'', ''/d/f.mkv'', ''/d/g.mkv'', ''/d/h.mkv'']) = 9"
    by (simp add: parse_files_def)
  have d: "length (parsed_es (parse_files [''/d/S1E1.mkv'', ''/d/a.mkv'', ''/d/b.mkv'', ''/d/c.mkv'', ''/d/d.mkv'',
        ''/d/e.mkv'', ''/d/f.mkv'', ''/d/g.mkv'', ''/d/h.mkv''])) = 1"
    by code_simp
  have e: "pure_numeric_files (parse_files [''/d/S1E1.mkv'', ''/d/a.mkv'', ''/d/b.mkv'', ''/d/c.mkv'', ''/d/d.mkv'',
        ''/d/e.mkv'', ''/d/f.mkv'', ''/d/g.mkv'', ''/d/h.mkv'']) = []"
    by code_simp
  show ?thesis
    using strategy_selection [of "parse_files [''/d/S1E1.mkv'', ''/d/S1E2.mkv'', ''/d/S1E3.mkv'', ''/d/S1E4.mkv'', ''/d/a.mkv'',
        ''/d/b.mkv'', ''/d/c.mkv'', ''/d/d.mkv'', ''/d/e.mkv'']"]
          strategy_selection [of "parse_files [''/d/S1E1.mkv'', ''/d/a.mkv'', ''/d/b.mkv'', ''/d/c.mkv'', ''/d/d.mkv'',
        ''/d/e.mkv'', ''/d/f.mkv'', ''/d/g.mkv'', ''/d/h.mkv'']"]
          a b c d e
    by blast
qed

text \<open>
  The body of the pure-numeric branch, which no preview pass enters
  (\<open>pure_numeric_never_selected\<close>): its loop over \<open>other_files\<close> computes
  \<open>len(files_sorted_num) + 1 + offset\<close> for each remaining file, so handed the files
  \<open>1.mkv\<close>, \<open>2.mkv\<close>, \<open>a.mkv\<close>, \<open>b.mkv\<close> it would give both \<open>a.mkv\<close> and \<open>b.mkv\<close> the
  number 3.
\<close>

lemma pure_numbers_branch_body:
  "pure_numbers None 0 (parse_files [''/d/1.mkv'', ''/d/2.mkv'', ''/d/a.mkv'', ''/d/b.mkv''])
     = [(''/d/1.mkv'', 1, 1, None), (''/d/2.mkv'', 1, 2, None),
        (''/d/a.mkv'', 1, 3, None), (''/d/b.mkv'', 1, 3, None)]"
  by code_simp

section \<open>Properties of the executor and the undo engine\<close>

text \<open>
  Claim C1. Executing a batch and then undoing it from the emitted log, with nothing
  touched in between, is to bring every logged file back to its original path. It does
  not for a batch whose targets are the old names of later entries. In \<open>/d\<close> are
  \<open>Show.S01E002.mkv\<close> and \<open>Show.S01E003.mkv\<close>; with title \<open>Show\<close>, season 1, offset -1 and
  the default template the preview renames them to \<open>Show.S01E001.mkv\<close> and
  \<open>Show.S01E002.mkv\<close>, and the executor does so and logs the two moves in that order.
  The undo engine replays the log from its first row: it moves \<open>Show.S01E001.mkv\<close> onto
  \<open>Show.S01E002.mkv\<close>, which by then is the former third episode, and then moves that
  path on to \<open>Show.S01E003.mkv\<close>. Afterwards \<open>Show.S01E002.mkv\<close> does not exist,
  \<open>Show.S01E003.mkv\<close> holds the second episode, and the third episode is lost.
\<close>

theorem undo_replays_log_forward:
  "scan_sorted [''/d/Show.S01E002.mkv'', ''/d/Show.S01E003.mkv'']
     = Inr [''/d/Show.S01E002.mkv'', ''/d/Show.S01E003.mkv'']
   \<and> preview default_format shift_back [''/d/Show.S01E002.mkv'', ''/d/Show.S01E003.mkv'']
     = Inr [(''/d/Show.S01E002.mkv'', ''/d/Show.S01E001.mkv'', ''Show.S01E002.mkv'', ''Show.S01E001.mkv''),
            (''/d/Show.S01E003.mkv'', ''/d/Show.S01E002.mkv'', ''Show.S01E003.mkv'', ''Show.S01E002.mkv'')]
   \<and> execute_task shift_back two_episodes
         [(''/d/Show.S01E002.mkv'', ''/d/Show.S01E001.mkv'', ''Show.S01E002.mkv'', ''Show.S01E001.mkv''),
          (''/d/Show.S01E003.mkv'', ''/d/Show.S01E002.mkv'', ''Show.S01E003.mkv'', ''Show.S01E002.mkv'')]
     = (\<lparr>fs_files = [(''/d/Show.S01E002.mkv'', ''third''), (''/d/Show.S01E001.mkv'', ''second'')],
         fs_dirs = [''/d'']\<rparr>,
        [(''/d/Show.S01E002.mkv'', ''/d/Show.S01E001.mkv''),
         (''/d/Show.S01E003.mkv'', ''/d/Show.S01E002.mkv'')])
   \<and> undo_task (\<lambda>p. p)
         \<lparr>fs_files = [(''/d/Show.S01E002.mkv'', ''third''), (''/d/Show.S01E001.mkv'', ''second'')],
          fs_dirs = [''/d'']\<rparr>
         (log_rows_csv [(''/d/Show.S01E002.mkv'', ''/d/Show.S01E001.mkv''),
                        (''/d/Show.S01E003.mkv'', ''/d/Show.S01E002.mkv'')])
     = (\<lparr>fs_files = [(''/d/Show.S01E003.mkv'', ''second'')], fs_dirs = [''/d'']\<rparr>,
        [(''/d/Show.S01E001.mkv'', ''/d/Show.S01E002.mkv''),
         (''/d/Show.S01E002.mkv'', ''/d/Show.S01E003.mkv'')],
        None)"
  by code_simp

end
